theory Spec2Isabelle
  imports Complex_Main "HOL-Library.Word"
begin

unbundle bit_operations_syntax

section \<open>Python values used by auth.py\<close>

text \<open>
  A Python \<open>str\<close> is a sequence of Unicode code points, a \<open>bytes\<close> object a sequence
  of octets. Every operation of the standard library that can raise returns a sum:
  \<open>Inl e\<close> is the exception \<open>e\<close>, \<open>Inr v\<close> the value.
\<close>

type_synonym pystr = "nat list"
type_synonym bytes = "char list"

datatype pyerr =
    AttributeError | KeyError | TypeError | ValueError | UnicodeEncodeError
  | UnicodeDecodeError | BinasciiError | JSONDecodeError | ValidationError

text \<open>A string literal of the source, as code points.\<close>

definition S :: "string \<Rightarrow> pystr" where
  "S s = map of_char s"

text \<open>
  The objects \<open>json.loads\<close> builds and \<open>json.dumps\<close> prints. A finite float is an
  IEEE 754 double, given by the rational it denotes; \<open>PInf True\<close> is \<open>inf\<close>,
  \<open>PInf False\<close> is \<open>-inf\<close>.
  A dict is the list of its items in insertion order, with distinct keys.
\<close>

datatype pyval =
    PNone
  | PBool bool
  | PInt int
  | PFloat rat
  | PNaN
  | PInf bool
  | PStr pystr
  | PList "pyval list"
  | PDict "(pystr \<times> pyval) list"

subsection \<open>Floats\<close>

function bit_length :: "nat \<Rightarrow> nat" where
  "bit_length n = (if n = 0 then 0 else Suc (bit_length (n div 2)))"
  by pat_completeness auto
termination
  by (relation "measure id") auto

text \<open>The integer \<open>k\<close> with \<open>2 ^ k \<le> a < 2 ^ (k + 1)\<close>, for a positive rational \<open>a\<close>.\<close>

definition floor_log2 :: "rat \<Rightarrow> int" where
  "floor_log2 a =
     (case quotient_of a of
        (p, d) \<Rightarrow>
          (let k = int (bit_length (nat p)) - int (bit_length (nat d))
           in if 2 powi k \<le> a then k else k - 1))"

definition round_half_even :: "rat \<Rightarrow> int" where
  "round_half_even x =
     (let f = \<lfloor>x\<rfloor>; r = x - of_int f
      in if r < 1 / 2 then f
         else if 1 / 2 < r then f + 1
         else if even f then f else f + 1)"

text \<open>
  The double nearest to a rational, ties to the even significand: 53 bits of
  significand, the exponent not below that of the subnormal numbers. The result
  can reach \<open>2 ^ 1024\<close>, which is no double; \<open>to_double\<close> turns that into an infinity,
  as \<open>float(literal)\<close> does.
\<close>

definition round_double :: "rat \<Rightarrow> rat" where
  "round_double q =
     (if q = 0 then 0
      else
        (let a = \<bar>q\<bar>;
             e = max (floor_log2 a) (- 1022);
             u = 2 powi (e - 52)
         in sgn q * of_int (round_half_even (a / u)) * u))"

definition to_double :: "rat \<Rightarrow> pyval" where
  "to_double q =
     (let v = round_double q
      in if 2 ^ 1024 \<le> \<bar>v\<bar> then PInf (0 < q) else PFloat v)"

subsection \<open>The interpreter and the clock\<close>

text \<open>
  What the code takes from the process it runs in. A naive \<open>datetime\<close> is a count of
  microseconds since 1970-01-01 00:00:00, and \<open>timedelta\<close> arithmetic on it is exact.
  \<^item> \<open>timestamp\<close> is \<open>datetime.timestamp()\<close> on a naive value: it reads the value in
    the local zone of the process and returns seconds as a double.
  \<^item> \<open>max_depth\<close> is the number of nested JSON containers the decoder enters
    before it raises RecursionError.
  \<^item> \<open>max_str_digits\<close> is \<open>sys.get_int_max_str_digits()\<close>: an integer literal with
    more digits raises ValueError; 0 switches the limit off.
\<close>

type_synonym datetime = int

record platform =
  timestamp :: "datetime \<Rightarrow> rat"
  max_depth :: nat
  max_str_digits :: nat

definition timedelta_hours :: "int \<Rightarrow> int" where
  "timedelta_hours h = h * 3600000000"

text \<open>
  \<open>timestamp()\<close> in a process whose local zone is UTC: the whole seconds plus
  \<open>microsecond / 1e6\<close>, both operations in double arithmetic.
\<close>

definition utc_timestamp :: "datetime \<Rightarrow> rat" where
  "utc_timestamp d =
     round_double (of_int (d div 1000000) + round_double (of_int (d mod 1000000) / 1000000))"

text \<open>A CPython process in UTC with the default digit limit and room for 900 nested containers.\<close>

definition utc_platform :: platform where
  "utc_platform = \<lparr>timestamp = utc_timestamp, max_depth = 900, max_str_digits = 4300\<rparr>"

subsection \<open>str.split, str.encode, bytes.decode\<close>

text \<open>\<open>s.split(sep)\<close> for a one-character separator: never empty, one part more than separators.\<close>

fun split_on :: "nat \<Rightarrow> pystr \<Rightarrow> pystr list" where
  "split_on sep [] = [[]]"
| "split_on sep (c # cs) =
     (if c = sep then [] # split_on sep cs
      else (case split_on sep cs of
              [] \<Rightarrow> [[c]]
            | p # ps \<Rightarrow> (c # p) # ps))"

definition is_surrogate :: "nat \<Rightarrow> bool" where
  "is_surrogate c = (55296 \<le> c \<and> c \<le> 57343)"

text \<open>\<open>s.encode()\<close>: UTF-8; a lone surrogate raises UnicodeEncodeError.\<close>

fun utf8_encode :: "pystr \<Rightarrow> pyerr + bytes" where
  "utf8_encode [] = Inr []"
| "utf8_encode (c # cs) =
     (if is_surrogate c \<or> 1114112 \<le> c then Inl UnicodeEncodeError
      else (case utf8_encode cs of
              Inl e \<Rightarrow> Inl e
            | Inr bs \<Rightarrow>
                Inr ((if c < 128 then [char_of c]
                      else if c < 2048 then [char_of (192 + c div 64), char_of (128 + c mod 64)]
                      else if c < 65536 then
                        [char_of (224 + c div 4096), char_of (128 + c div 64 mod 64),
                         char_of (128 + c mod 64)]
                      else
                        [char_of (240 + c div 262144), char_of (128 + c div 4096 mod 64),
                         char_of (128 + c div 64 mod 64), char_of (128 + c mod 64)]) @ bs)))"

definition is_cont :: "nat \<Rightarrow> bool" where
  "is_cont b = (128 \<le> b \<and> b < 192)"

definition cons_ok :: "nat \<Rightarrow> pyerr + pystr \<Rightarrow> pyerr + pystr" where
  "cons_ok c r = (case r of Inl e \<Rightarrow> Inl e | Inr cs \<Rightarrow> Inr (c # cs))"

text \<open>Strict UTF-8 decoding of a list of octet values: no overlong forms, no surrogates.\<close>

fun utf8_decode_nat :: "nat list \<Rightarrow> pyerr + pystr" where
  "utf8_decode_nat [] = Inr []"
| "utf8_decode_nat (b # bs) =
     (if b < 128 then cons_ok b (utf8_decode_nat bs)
      else if 194 \<le> b \<and> b < 224 then
        (case bs of
           c1 # r \<Rightarrow>
             if is_cont c1 then cons_ok ((b - 192) * 64 + (c1 - 128)) (utf8_decode_nat r)
             else Inl UnicodeDecodeError
         | _ \<Rightarrow> Inl UnicodeDecodeError)
      else if 224 \<le> b \<and> b < 240 then
        (case bs of
           c1 # c2 # r \<Rightarrow>
             (let cp = (b - 224) * 4096 + (c1 - 128) * 64 + (c2 - 128) in
              if is_cont c1 \<and> is_cont c2 \<and> 2048 \<le> cp \<and> \<not> is_surrogate cp
              then cons_ok cp (utf8_decode_nat r)
              else Inl UnicodeDecodeError)
         | _ \<Rightarrow> Inl UnicodeDecodeError)
      else if 240 \<le> b \<and> b < 245 then
        (case bs of
           c1 # c2 # c3 # r \<Rightarrow>
             (let cp = (b - 240) * 262144 + (c1 - 128) * 4096 + (c2 - 128) * 64 + (c3 - 128) in
              if is_cont c1 \<and> is_cont c2 \<and> is_cont c3 \<and> 65536 \<le> cp \<and> cp < 1114112
              then cons_ok cp (utf8_decode_nat r)
              else Inl UnicodeDecodeError)
         | _ \<Rightarrow> Inl UnicodeDecodeError)
      else Inl UnicodeDecodeError)"

definition utf8_decode :: "bytes \<Rightarrow> pyerr + pystr" where
  "utf8_decode bs = utf8_decode_nat (map of_char bs)"

text \<open>\<open>s.encode('ascii')\<close>, as base64 applies it to a \<open>str\<close> argument.\<close>

definition ascii_encode :: "pystr \<Rightarrow> pyerr + bytes" where
  "ascii_encode s = (if list_all (\<lambda>c. c < 128) s then Inr (map char_of s) else Inl ValueError)"

subsection \<open>hashlib.sha256 (FIPS 180-4) and hmac (RFC 2104)\<close>

type_synonym u32 = "32 word"

definition K256 :: "u32 list" where
  "K256 = [
   1116352408, 1899447441, 3049323471, 3921009573, 961987163, 1508970993, 2453635748, 2870763221,
   3624381080, 310598401, 607225278, 1426881987, 1925078388, 2162078206, 2614888103, 3248222580,
   3835390401, 4022224774, 264347078, 604807628, 770255983, 1249150122, 1555081692, 1996064986,
   2554220882, 2821834349, 2952996808, 3210313671, 3336571891, 3584528711, 113926993, 338241895,
   666307205, 773529912, 1294757372, 1396182291, 1695183700, 1986661051, 2177026350, 2456956037,
   2730485921, 2820302411, 3259730800, 3345764771, 3516065817, 3600352804, 4094571909, 275423344,
   430227734, 506948616, 659060556, 883997877, 958139571, 1322822218, 1537002063, 1747873779,
   1955562222, 2024104815, 2227730452, 2361852424, 2428436474, 2756734187, 3204031479, 3329325298]"

definition H256 :: "u32 list" where
  "H256 = [1779033703, 3144134277, 1013904242, 2773480762,
           1359893119, 2600822924, 528734635, 1541459225]"

definition rotr :: "nat \<Rightarrow> u32 \<Rightarrow> u32" where
  "rotr n x = drop_bit n x OR push_bit (32 - n) x"

definition ssig0 :: "u32 \<Rightarrow> u32" where
  "ssig0 x = rotr 7 x XOR rotr 18 x XOR drop_bit 3 x"

definition ssig1 :: "u32 \<Rightarrow> u32" where
  "ssig1 x = rotr 17 x XOR rotr 19 x XOR drop_bit 10 x"

definition bsig0 :: "u32 \<Rightarrow> u32" where
  "bsig0 x = rotr 2 x XOR rotr 13 x XOR rotr 22 x"

definition bsig1 :: "u32 \<Rightarrow> u32" where
  "bsig1 x = rotr 6 x XOR rotr 11 x XOR rotr 25 x"

definition ch :: "u32 \<Rightarrow> u32 \<Rightarrow> u32 \<Rightarrow> u32" where
  "ch x y z = (x AND y) XOR (NOT x AND z)"

definition maj :: "u32 \<Rightarrow> u32 \<Rightarrow> u32 \<Rightarrow> u32" where
  "maj x y z = (x AND y) XOR (x AND z) XOR (y AND z)"

fun be32 :: "bytes \<Rightarrow> u32 list" where
  "be32 (a # b # c # d # r) =
     (push_bit 24 (of_char a) OR push_bit 16 (of_char b) OR push_bit 8 (of_char c) OR of_char d)
     # be32 r"
| "be32 _ = []"

fun chunks64 :: "nat \<Rightarrow> bytes \<Rightarrow> bytes list" where
  "chunks64 0 bs = []"
| "chunks64 (Suc n) bs = take 64 bs # chunks64 n (drop 64 bs)"

definition be_bytes :: "nat \<Rightarrow> nat \<Rightarrow> bytes" where
  "be_bytes k n = map (\<lambda>i. char_of (n div 256 ^ i)) (rev [0..<k])"

definition sha_pad :: "bytes \<Rightarrow> bytes" where
  "sha_pad m =
     m @ [char_of (128 :: nat)]
       @ replicate ((119 - length m mod 64) mod 64) (char_of (0 :: nat))
       @ be_bytes 8 (8 * length m)"

fun schedule :: "nat \<Rightarrow> u32 list \<Rightarrow> u32 list" where
  "schedule 0 w = w"
| "schedule (Suc n) w =
     schedule n (w @ [ssig1 (w ! (length w - 2)) + w ! (length w - 7)
                      + ssig0 (w ! (length w - 15)) + w ! (length w - 16)])"

fun round256 :: "u32 list \<Rightarrow> u32 \<times> u32 \<Rightarrow> u32 list" where
  "round256 [a, b, c, d, e, f, g, h] (k, w) =
     (let t1 = h + bsig1 e + ch e f g + k + w;
          t2 = bsig0 a + maj a b c
      in [t1 + t2, a, b, c, d + t1, e, f, g])"
| "round256 s _ = s"

definition compress :: "u32 list \<Rightarrow> bytes \<Rightarrow> u32 list" where
  "compress hs blk = map2 (+) hs (foldl round256 hs (zip K256 (schedule 48 (be32 blk))))"

definition word_bytes :: "u32 \<Rightarrow> bytes" where
  "word_bytes w = map (\<lambda>i. char_of (unat (drop_bit (8 * i) w))) [3, 2, 1, 0]"

definition sha256 :: "bytes \<Rightarrow> bytes" where
  "sha256 m =
     (let p = sha_pad m
      in concat (map word_bytes (foldl compress H256 (chunks64 (length p div 64) p))))"

definition hexdigit :: "nat \<Rightarrow> char" where
  "hexdigit n = ''0123456789abcdef'' ! n"

text \<open>\<open>.hexdigest()\<close>: two lowercase hex digits for every octet, as a \<open>str\<close>.\<close>

definition hexlify :: "bytes \<Rightarrow> pystr" where
  "hexlify bs =
     concat (map (\<lambda>c. [of_char (hexdigit (of_char c div 16)),
                       of_char (hexdigit (of_char c mod 16))]) bs)"

definition xor_byte :: "nat \<Rightarrow> char \<Rightarrow> char" where
  "xor_byte k c = char_of ((of_char c :: nat) XOR k)"

text \<open>
  \<open>hmac.new(key, msg, hashlib.sha256)\<close>: a key longer than the 64-octet block is hashed
  first, a shorter one is filled with zero octets up to the block.
\<close>

definition hmac_key :: "bytes \<Rightarrow> bytes" where
  "hmac_key key =
     (let k = (if 64 < length key then sha256 key else key)
      in k @ replicate (64 - length k) (char_of (0 :: nat)))"

definition hmac_sha256 :: "bytes \<Rightarrow> bytes \<Rightarrow> bytes" where
  "hmac_sha256 key msg =
     (let k = hmac_key key
      in sha256 (map (xor_byte 92) k @ sha256 (map (xor_byte 54) k @ msg)))"

subsection \<open>base64.urlsafe_b64encode, base64.urlsafe_b64decode (RFC 4648)\<close>

definition b64chars :: string where
  "b64chars = ''ABCDEFGHIJKLMNOPQRSTUVWXYZabcdefghijklmnopqrstuvwxyz0123456789-_''"

definition b64c :: "nat \<Rightarrow> char" where
  "b64c i = b64chars ! i"

fun b64encode :: "bytes \<Rightarrow> bytes" where
  "b64encode (a # b # c # r) =
     (let n = of_char a * 65536 + of_char b * 256 + (of_char c :: nat)
      in b64c (n div 262144) # b64c (n div 4096 mod 64) # b64c (n div 64 mod 64)
         # b64c (n mod 64) # b64encode r)"
| "b64encode [a, b] =
     (let n = of_char a * 1024 + (of_char b :: nat) * 4
      in [b64c (n div 4096), b64c (n div 64 mod 64), b64c (n mod 64), CHR ''=''])"
| "b64encode [a] =
     (let n = (of_char a :: nat) * 16
      in [b64c (n div 64), b64c (n mod 64), CHR ''='', CHR ''=''])"
| "b64encode [] = []"

definition urlsafe_b64encode :: "bytes \<Rightarrow> bytes" where
  "urlsafe_b64encode bs = b64encode bs"

text \<open>
  The value of a base64 digit. \<open>urlsafe_b64decode\<close> maps \<open>-\<close> and \<open>_\<close> to \<open>+\<close> and
  \<open>/\<close> before it decodes, so both alphabets are digits; any other octet is none.
\<close>

definition b64val :: "nat \<Rightarrow> nat option" where
  "b64val n =
     (if 65 \<le> n \<and> n \<le> 90 then Some (n - 65)
      else if 97 \<le> n \<and> n \<le> 122 then Some (n - 71)
      else if 48 \<le> n \<and> n \<le> 57 then Some (n + 4)
      else if n = 45 \<or> n = 43 then Some 62
      else if n = 95 \<or> n = 47 then Some 63
      else None)"

text \<open>
  \<open>binascii.a2b_base64\<close> without strict mode, one octet (as a number) at a time. The state is the
  position \<open>q\<close> in the current group of four digits, the bits left over from the last
  digit and the number of pad characters just seen. An octet that is no digit is
  skipped; a pad that completes a group ends the decoding; input that ends inside
  a group is an error.
\<close>

fun a2b_base64 :: "nat \<Rightarrow> nat \<Rightarrow> nat \<Rightarrow> nat list \<Rightarrow> pyerr + bytes" where
  "a2b_base64 q left pads [] = (if q \<noteq> 0 then Inl BinasciiError else Inr [])"
| "a2b_base64 q left pads (c # cs) =
     (if c = 61 then
        (if 2 \<le> q \<and> 4 \<le> q + (pads + 1) then Inr []
         else a2b_base64 q left (if 2 \<le> q then pads + 1 else pads) cs)
      else
        (case b64val c of
           None \<Rightarrow> a2b_base64 q left pads cs
         | Some v \<Rightarrow>
             if q = 0 then a2b_base64 1 v 0 cs
             else
               (case a2b_base64 ((q + 1) mod 4)
                       (if q = 1 then v mod 16 else if q = 2 then v mod 4 else 0) 0 cs of
                  Inl e \<Rightarrow> Inl e
                | Inr out \<Rightarrow>
                    Inr (char_of (if q = 1 then left * 4 + v div 16
                                  else if q = 2 then left * 16 + v div 4
                                  else left * 64 + v) # out))))"

definition urlsafe_b64decode :: "pystr \<Rightarrow> pyerr + bytes" where
  "urlsafe_b64decode s =
     (case ascii_encode s of
        Inl e \<Rightarrow> Inl e
      | Inr bs \<Rightarrow> a2b_base64 0 0 0 (map of_char bs))"

subsection \<open>json.dumps\<close>

definition hex4 :: "nat \<Rightarrow> pystr" where
  "hex4 n = map (\<lambda>d. of_char (hexdigit d)) [n div 4096 mod 16, n div 256 mod 16, n div 16 mod 16, n mod 16]"

text \<open>The escape of one code point under \<open>ensure_ascii=True\<close>, the default.\<close>

definition esc_char :: "nat \<Rightarrow> pystr" where
  "esc_char c =
     (if c = 34 then [92, 34]
      else if c = 92 then [92, 92]
      else if c = 8 then [92, 98]
      else if c = 12 then [92, 102]
      else if c = 10 then [92, 110]
      else if c = 13 then [92, 114]
      else if c = 9 then [92, 116]
      else if 32 \<le> c \<and> c \<le> 126 then [c]
      else if c < 65536 then [92, 117] @ hex4 c
      else [92, 117] @ hex4 (55296 + (c - 65536) div 1024 mod 1024)
           @ [92, 117] @ hex4 (56320 + (c - 65536) mod 1024))"

definition dumps_str :: "pystr \<Rightarrow> pystr" where
  "dumps_str s = [34] @ concat (map esc_char s) @ [34]"

fun digits_rev :: "nat \<Rightarrow> nat \<Rightarrow> pystr" where
  "digits_rev 0 n = []"
| "digits_rev (Suc k) n =
     (if n < 10 then [48 + n] else (48 + n mod 10) # digits_rev k (n div 10))"

text \<open>The decimal digits of a natural number; it has at most \<open>n + 1\<close> of them.\<close>

definition dec_nat :: "nat \<Rightarrow> pystr" where
  "dec_nat n = rev (digits_rev (Suc n) n)"

definition dec_int :: "int \<Rightarrow> pystr" where
  "dec_int i = (if i < 0 then 45 # dec_nat (nat (- i)) else dec_nat (nat i))"

fun join_comma :: "pystr list \<Rightarrow> pystr" where
  "join_comma [] = []"
| "join_comma [x] = x"
| "join_comma (x # y # ys) = x @ [44, 32] @ join_comma (y # ys)"

text \<open>
  \<open>json.dumps(obj)\<close> with the default separators \<open>', '\<close> and \<open>': '\<close>. A finite float
  is printed by \<open>float.__repr__\<close>, the shortest decimal string that reads back as the
  same double; it is the argument \<open>float_repr\<close>.
\<close>

fun json_dumps :: "(rat \<Rightarrow> pystr) \<Rightarrow> pyval \<Rightarrow> pystr" where
  "json_dumps float_repr PNone = S ''null''"
| "json_dumps float_repr (PBool b) = (if b then S ''true'' else S ''false'')"
| "json_dumps float_repr (PInt i) = dec_int i"
| "json_dumps float_repr (PFloat q) = float_repr q"
| "json_dumps float_repr PNaN = S ''NaN''"
| "json_dumps float_repr (PInf b) = (if b then S ''Infinity'' else S ''-Infinity'')"
| "json_dumps float_repr (PStr s) = dumps_str s"
| "json_dumps float_repr (PList xs) = [91] @ join_comma (map (json_dumps float_repr) xs) @ [93]"
| "json_dumps float_repr (PDict kvs) =
     [123] @ join_comma (map (\<lambda>kv. dumps_str (fst kv) @ [58, 32] @ json_dumps float_repr (snd kv))
                         kvs) @ [125]"

subsection \<open>json.loads\<close>

definition skip_ws :: "pystr \<Rightarrow> pystr" where
  "skip_ws s = dropWhile (\<lambda>c. c = 32 \<or> c = 9 \<or> c = 10 \<or> c = 13) s"

definition starts_with :: "pystr \<Rightarrow> pystr \<Rightarrow> bool" where
  "starts_with pre s = (take (length pre) s = pre)"

definition hexval :: "nat \<Rightarrow> nat option" where
  "hexval c =
     (if 48 \<le> c \<and> c \<le> 57 then Some (c - 48)
      else if 97 \<le> c \<and> c \<le> 102 then Some (c - 87)
      else if 65 \<le> c \<and> c \<le> 70 then Some (c - 55)
      else None)"

definition hex4val :: "nat \<Rightarrow> nat \<Rightarrow> nat \<Rightarrow> nat \<Rightarrow> nat option" where
  "hex4val a b c d =
     (case (hexval a, hexval b, hexval c, hexval d) of
        (Some x, Some y, Some z, Some w) \<Rightarrow> Some (x * 4096 + y * 256 + z * 16 + w)
      | _ \<Rightarrow> None)"

definition unescape :: "nat \<Rightarrow> nat option" where
  "unescape e =
     (if e = 34 then Some 34
      else if e = 92 then Some 92
      else if e = 47 then Some 47
      else if e = 98 then Some 8
      else if e = 102 then Some 12
      else if e = 110 then Some 10
      else if e = 114 then Some 13
      else if e = 116 then Some 9
      else None)"

definition cons_str :: "nat \<Rightarrow> (pystr \<times> pystr) option \<Rightarrow> (pystr \<times> pystr) option" where
  "cons_str c r = (case r of None \<Rightarrow> None | Some (str, rest) \<Rightarrow> Some (c # str, rest))"

text \<open>
  The scanner of a string literal, called after the opening quote, in strict mode:
  it returns the string and the input after the closing quote. A \<open>\uXXXX\<close> escape
  of a high surrogate joins a following escape of a low surrogate.
\<close>

fun scanstring :: "pystr \<Rightarrow> (pystr \<times> pystr) option" where
  "scanstring [] = None"
| "scanstring (c # cs) =
     (if c = 34 then Some ([], cs)
      else if c = 92 then
        (case cs of
           [] \<Rightarrow> None
         | e # r \<Rightarrow>
             if e = 117 then
               (case r of
                  h1 # h2 # h3 # h4 # r1 \<Rightarrow>
                    (case hex4val h1 h2 h3 h4 of
                       None \<Rightarrow> None
                     | Some u \<Rightarrow>
                         if 55296 \<le> u \<and> u \<le> 56319 then
                           (case r1 of
                              b # x # l1 # l2 # l3 # l4 # r2 \<Rightarrow>
                                if b = 92 \<and> x = 117 then
                                  (case hex4val l1 l2 l3 l4 of
                                     None \<Rightarrow> None
                                   | Some u2 \<Rightarrow>
                                       if 56320 \<le> u2 \<and> u2 \<le> 57343
                                       then cons_str (65536 + (u - 55296) * 1024 + (u2 - 56320))
                                              (scanstring r2)
                                       else cons_str u (scanstring r1))
                                else cons_str u (scanstring r1)
                            | _ \<Rightarrow> cons_str u (scanstring r1))
                         else cons_str u (scanstring r1))
                | _ \<Rightarrow> None)
             else
               (case unescape e of
                  None \<Rightarrow> None
                | Some uc \<Rightarrow> cons_str uc (scanstring r)))
      else if c < 32 then None
      else cons_str c (scanstring cs))"

definition is_digit :: "nat \<Rightarrow> bool" where
  "is_digit c = (48 \<le> c \<and> c \<le> 57)"

definition digits_val :: "pystr \<Rightarrow> nat" where
  "digits_val ds = foldl (\<lambda>a d. 10 * a + (d - 48)) 0 ds"

definition frac_val :: "pystr \<Rightarrow> rat" where
  "frac_val ds = foldr (\<lambda>d a. (of_nat (d - 48) + a) / 10) ds 0"

text \<open>The integer part of a number: a single \<open>0\<close>, or a digit from 1 to 9 and all digits after it.\<close>

definition int_part :: "pystr \<Rightarrow> (pystr \<times> pystr) option" where
  "int_part s =
     (case s of
        [] \<Rightarrow> None
      | d # r \<Rightarrow>
          if d = 48 then Some ([48], r)
          else if is_digit d then Some (d # takeWhile is_digit r, dropWhile is_digit r)
          else None)"

definition frac_part :: "pystr \<Rightarrow> pystr option \<times> pystr" where
  "frac_part s =
     (case s of
        p # d # r \<Rightarrow>
          if p = 46 \<and> is_digit d then (Some (d # takeWhile is_digit r), dropWhile is_digit r)
          else (None, s)
      | _ \<Rightarrow> (None, s))"

definition exp_digits :: "pystr \<Rightarrow> (nat \<times> pystr) option" where
  "exp_digits s =
     (case s of
        d # r \<Rightarrow>
          if is_digit d then Some (digits_val (d # takeWhile is_digit r), dropWhile is_digit r)
          else None
      | [] \<Rightarrow> None)"

definition exp_part :: "pystr \<Rightarrow> int option \<times> pystr" where
  "exp_part s =
     (case s of
        e # r \<Rightarrow>
          if e = 101 \<or> e = 69 then
            (case r of
               sg # r1 \<Rightarrow>
                 if sg = 45 then
                   (case exp_digits r1 of None \<Rightarrow> (None, s) | Some (n, r2) \<Rightarrow> (Some (- int n), r2))
                 else if sg = 43 then
                   (case exp_digits r1 of None \<Rightarrow> (None, s) | Some (n, r2) \<Rightarrow> (Some (int n), r2))
                 else
                   (case exp_digits r of None \<Rightarrow> (None, s) | Some (n, r2) \<Rightarrow> (Some (int n), r2))
             | [] \<Rightarrow> (None, s))
          else (None, s)
      | [] \<Rightarrow> (None, s))"

text \<open>
  The number pattern of the decoder, \<open>(-?(?:0|[1-9]\d*))(\.\d+)?([eE][-+]?\d+)?\<close>. Without
  fraction and exponent the literal is an \<open>int\<close>, and \<open>int(literal)\<close> raises when it has
  more digits than the limit \<open>dl\<close> (0 is no limit). Otherwise it is \<open>float(literal)\<close>, the
  double nearest to the value of the literal.
\<close>

definition match_number :: "nat \<Rightarrow> pystr \<Rightarrow> (pyval \<times> pystr) option" where
  "match_number dl s =
     (let neg = (case s of c # _ \<Rightarrow> c = 45 | [] \<Rightarrow> False);
          s1 = (if neg then tl s else s)
      in case int_part s1 of
           None \<Rightarrow> None
         | Some (ip, s2) \<Rightarrow>
             (case frac_part s2 of
                (fr, s3) \<Rightarrow>
                  (case exp_part s3 of
                     (ex, s4) \<Rightarrow>
                       if fr = None \<and> ex = None then
                         (if dl \<noteq> 0 \<and> dl < length ip then None
                          else Some (PInt (if neg then - int (digits_val ip)
                                           else int (digits_val ip)), s4))
                       else
                         (let m = of_nat (digits_val ip)
                                  + (case fr of None \<Rightarrow> 0 | Some ds \<Rightarrow> frac_val ds);
                              v = m * (case ex of None \<Rightarrow> 1 | Some k \<Rightarrow> 10 powi k)
                          in Some (to_double (if neg then - v else v), s4)))))"

fun dict_set :: "(pystr \<times> pyval) list \<Rightarrow> pystr \<Rightarrow> pyval \<Rightarrow> (pystr \<times> pyval) list" where
  "dict_set [] k v = [(k, v)]"
| "dict_set ((k', v') # kvs) k v =
     (if k' = k then (k, v) # kvs else (k', v') # dict_set kvs k v)"

text \<open>\<open>dict(pairs)\<close>: a later pair with a key already present replaces its value.\<close>

definition dict_of :: "(pystr \<times> pyval) list \<Rightarrow> (pystr \<times> pyval) list" where
  "dict_of pairs = foldl (\<lambda>d kv. dict_set d (fst kv) (snd kv)) [] pairs"

text \<open>
  The recursive-descent scanner. The first argument bounds the number of calls;
  every call consumes at least one character, so the length of the input is enough.
  The second is the number of nested containers that may still be entered, the third
  the digit limit of integers. \<open>None\<close> is an exception of the decoder.
\<close>

fun scan_once :: "nat \<Rightarrow> nat \<Rightarrow> nat \<Rightarrow> pystr \<Rightarrow> (pyval \<times> pystr) option"
  and parse_object ::
    "nat \<Rightarrow> nat \<Rightarrow> nat \<Rightarrow> (pystr \<times> pyval) list \<Rightarrow> pystr \<Rightarrow> (pyval \<times> pystr) option"
  and parse_array :: "nat \<Rightarrow> nat \<Rightarrow> nat \<Rightarrow> pyval list \<Rightarrow> pystr \<Rightarrow> (pyval \<times> pystr) option"
where
  "scan_once 0 d dl s = None"
| "scan_once (Suc n) d dl s =
     (case s of
        [] \<Rightarrow> None
      | c # cs \<Rightarrow>
          if c = 34 then
            (case scanstring cs of None \<Rightarrow> None | Some (str, r) \<Rightarrow> Some (PStr str, r))
          else if c = 123 then
            (if d = 0 then None
             else
               (case skip_ws cs of
                  [] \<Rightarrow> None
                | c1 # r \<Rightarrow>
                    if c1 = 125 then Some (PDict [], r)
                    else if c1 = 34 then parse_object n (d - 1) dl [] r
                    else None))
          else if c = 91 then
            (if d = 0 then None
             else
               (case skip_ws cs of
                  [] \<Rightarrow> None
                | c1 # r \<Rightarrow>
                    if c1 = 93 then Some (PList [], r)
                    else parse_array n (d - 1) dl [] (c1 # r)))
          else if starts_with (S ''null'') s then Some (PNone, drop 4 s)
          else if starts_with (S ''true'') s then Some (PBool True, drop 4 s)
          else if starts_with (S ''false'') s then Some (PBool False, drop 5 s)
          else
            (case match_number dl s of
               Some res \<Rightarrow> Some res
             | None \<Rightarrow>
                 if starts_with (S ''NaN'') s then Some (PNaN, drop 3 s)
                 else if starts_with (S ''Infinity'') s then Some (PInf True, drop 8 s)
                 else if starts_with (S ''-Infinity'') s then Some (PInf False, drop 9 s)
                 else None))"
| "parse_object 0 d dl acc s = None"
| "parse_object (Suc n) d dl acc s =
     (case scanstring s of
        None \<Rightarrow> None
      | Some (key, r) \<Rightarrow>
          (case skip_ws r of
             [] \<Rightarrow> None
           | c # r1 \<Rightarrow>
               if c \<noteq> 58 then None
               else
                 (case scan_once n d dl (skip_ws r1) of
                    None \<Rightarrow> None
                  | Some (v, r2) \<Rightarrow>
                      (case skip_ws r2 of
                         [] \<Rightarrow> None
                       | c2 # r3 \<Rightarrow>
                           if c2 = 125 then Some (PDict (dict_of (acc @ [(key, v)])), r3)
                           else if c2 = 44 then
                             (case skip_ws r3 of
                                [] \<Rightarrow> None
                              | c3 # r4 \<Rightarrow>
                                  if c3 = 34 then parse_object n d dl (acc @ [(key, v)]) r4
                                  else None)
                           else None))))"
| "parse_array 0 d dl acc s = None"
| "parse_array (Suc n) d dl acc s =
     (case scan_once n d dl s of
        None \<Rightarrow> None
      | Some (v, r) \<Rightarrow>
          (case skip_ws r of
             [] \<Rightarrow> None
           | c # r1 \<Rightarrow>
               if c = 93 then Some (PList (acc @ [v]), r1)
               else if c = 44 then parse_array n d dl (acc @ [v]) (skip_ws r1)
               else None))"

text \<open>\<open>json.loads(s)\<close> for a \<open>str\<close>: one value between optional whitespace, nothing after it.\<close>

definition json_loads :: "platform \<Rightarrow> pystr \<Rightarrow> pyerr + pyval" where
  "json_loads P s =
     (if starts_with [65279] s then Inl JSONDecodeError
      else
        (case scan_once (Suc (length s)) (max_depth P) (max_str_digits P) (skip_ws s) of
           None \<Rightarrow> Inl JSONDecodeError
         | Some (v, r) \<Rightarrow> if skip_ws r = [] then Inr v else Inl JSONDecodeError))"

section \<open>auth.py\<close>

subsection \<open>The pydantic models\<close>

record Group =
  gtype :: pystr
  gid :: pystr
  gname :: pystr

record DemoUser =
  uid :: pystr
  email :: pystr
  role :: pystr
  groups :: "Group list"

record UserInDB =
  db_id :: pystr
  db_email :: pystr
  db_password :: pystr
  db_role :: pystr
  db_groups :: "Group list"

text \<open>A \<open>str\<close> field accepts a \<open>str\<close>, and nothing else: pydantic 2 does not convert numbers.\<close>

definition validate_str :: "pyval \<Rightarrow> pyerr + pystr" where
  "validate_str v =
     (case v of
        PStr s \<Rightarrow> Inr s
      | _ \<Rightarrow> Inl ValidationError)"

definition field_str :: "(pystr \<times> pyval) list \<Rightarrow> pystr \<Rightarrow> pyerr + pystr" where
  "field_str kvs k = (case map_of kvs k of None \<Rightarrow> Inl ValidationError | Some v \<Rightarrow> validate_str v)"

text \<open>
  \<open>Group(**group)\<close>: the argument must be a mapping; the three fields are required,
  any other key is ignored.
\<close>

definition make_group :: "pyval \<Rightarrow> pyerr + Group" where
  "make_group g =
     (case g of
        PDict kvs \<Rightarrow>
          (case field_str kvs (S ''type'') of
             Inl e \<Rightarrow> Inl e
           | Inr t \<Rightarrow>
               (case field_str kvs (S ''id'') of
                  Inl e \<Rightarrow> Inl e
                | Inr i \<Rightarrow>
                    (case field_str kvs (S ''name'') of
                       Inl e \<Rightarrow> Inl e
                     | Inr n \<Rightarrow> Inr \<lparr>gtype = t, gid = i, gname = n\<rparr>)))
      | _ \<Rightarrow> Inl TypeError)"

text \<open>\<open>group.model_dump()\<close>.\<close>

definition model_dump :: "Group \<Rightarrow> pyval" where
  "model_dump g =
     PDict [(S ''type'', PStr (gtype g)), (S ''id'', PStr (gid g)), (S ''name'', PStr (gname g))]"

text \<open>What a \<open>for\<close> loop iterates over: the items of a list, the keys of a dict, the characters of a str.\<close>

definition py_iter :: "pyval \<Rightarrow> pyerr + pyval list" where
  "py_iter v =
     (case v of
        PList xs \<Rightarrow> Inr xs
      | PDict kvs \<Rightarrow> Inr (map (\<lambda>kv. PStr (fst kv)) kvs)
      | PStr s \<Rightarrow> Inr (map (\<lambda>c. PStr [c]) s)
      | _ \<Rightarrow> Inl TypeError)"

fun make_groups :: "pyval list \<Rightarrow> pyerr + Group list" where
  "make_groups [] = Inr []"
| "make_groups (g # gs) =
     (case make_group g of
        Inl e \<Rightarrow> Inl e
      | Inr x \<Rightarrow> (case make_groups gs of Inl e \<Rightarrow> Inl e | Inr xs \<Rightarrow> Inr (x # xs)))"

text \<open>\<open>d.get(k, default)\<close>: only a dict has the method.\<close>

definition dict_get :: "pyval \<Rightarrow> pystr \<Rightarrow> pyval \<Rightarrow> pyerr + pyval" where
  "dict_get d k dflt =
     (case d of
        PDict kvs \<Rightarrow> Inr (case map_of kvs k of None \<Rightarrow> dflt | Some v \<Rightarrow> v)
      | _ \<Rightarrow> Inl AttributeError)"

text \<open>\<open>d[k]\<close> for a string key.\<close>

definition getitem :: "pyval \<Rightarrow> pystr \<Rightarrow> pyerr + pyval" where
  "getitem d k =
     (case d of
        PDict kvs \<Rightarrow> (case map_of kvs k of None \<Rightarrow> Inl KeyError | Some v \<Rightarrow> Inr v)
      | _ \<Rightarrow> Inl TypeError)"

text \<open>\<open>v < x\<close> for a finite float \<open>x\<close>: numbers compare by value, \<open>nan\<close> is never smaller.\<close>

definition py_lt_float :: "pyval \<Rightarrow> rat \<Rightarrow> pyerr + bool" where
  "py_lt_float v x =
     (case v of
        PInt i \<Rightarrow> Inr (of_int i < x)
      | PBool b \<Rightarrow> Inr ((if b then 1 else 0) < x)
      | PFloat y \<Rightarrow> Inr (y < x)
      | PNaN \<Rightarrow> Inr False
      | PInf b \<Rightarrow> Inr (\<not> b)
      | _ \<Rightarrow> Inl TypeError)"

text \<open>The finite number that a value is, if it is one: an \<open>int\<close>, a \<open>bool\<close> or a finite float.\<close>

definition number_value :: "pyval \<Rightarrow> rat option" where
  "number_value v =
     (case v of
        PInt i \<Rightarrow> Some (of_int i)
      | PBool b \<Rightarrow> Some (if b then 1 else 0)
      | PFloat y \<Rightarrow> Some y
      | _ \<Rightarrow> None)"

text \<open>A JSON object that has the three fields of a group as strings, in any order, among any others.\<close>

definition group_obj :: "pyval \<Rightarrow> Group \<Rightarrow> bool" where
  "group_obj v g =
     (case v of
        PDict kvs \<Rightarrow>
          map_of kvs (S ''type'') = Some (PStr (gtype g))
          \<and> map_of kvs (S ''id'') = Some (PStr (gid g))
          \<and> map_of kvs (S ''name'') = Some (PStr (gname g))
      | _ \<Rightarrow> False)"

subsection \<open>Password check\<close>

definition sha256_hexdigest :: "bytes \<Rightarrow> pystr" where
  "sha256_hexdigest bs = hexlify (sha256 bs)"

definition simple_hash :: "pystr \<Rightarrow> pyerr + pystr" where
  "simple_hash password =
     (case utf8_encode password of
        Inl e \<Rightarrow> Inl e
      | Inr bs \<Rightarrow> Inr (sha256_hexdigest bs))"

definition verify_simple_password :: "pystr \<Rightarrow> pystr \<Rightarrow> pyerr + bool" where
  "verify_simple_password plain_password hashed_password =
     (case simple_hash plain_password of
        Inl e \<Rightarrow> Inl e
      | Inr h \<Rightarrow> Inr (h = hashed_password))"

text \<open>The two stored hashes are computed when the module is loaded, from ASCII literals.\<close>

definition demo_users_db :: "UserInDB list" where
  "demo_users_db =
     [\<lparr>db_id = S ''user-1'', db_email = S ''admin@example.com'',
       db_password = sha256_hexdigest ''password123'', db_role = S ''admin'',
       db_groups = [\<lparr>gtype = S ''team'', gid = S ''team-1'', gname = S ''Engineering''\<rparr>,
                    \<lparr>gtype = S ''organization'', gid = S ''org-1'', gname = S ''Acme Corp''\<rparr>]\<rparr>,
      \<lparr>db_id = S ''user-2'', db_email = S ''user@example.com'',
       db_password = sha256_hexdigest ''userpass'', db_role = S ''user'',
       db_groups = [\<lparr>gtype = S ''team'', gid = S ''team-1'', gname = S ''Engineering''\<rparr>]\<rparr>]"

fun find_user :: "UserInDB list \<Rightarrow> pystr \<Rightarrow> UserInDB option" where
  "find_user [] e = None"
| "find_user (u # us) e = (if db_email u = e then Some u else find_user us e)"

definition get_user_by_email :: "pystr \<Rightarrow> UserInDB option" where
  "get_user_by_email e = find_user demo_users_db e"

definition authenticate_user :: "pystr \<Rightarrow> pystr \<Rightarrow> pyerr + DemoUser option" where
  "authenticate_user e password =
     (case get_user_by_email e of
        None \<Rightarrow> Inr None
      | Some user_db \<Rightarrow>
          (case verify_simple_password password (db_password user_db) of
             Inl err \<Rightarrow> Inl err
           | Inr ok \<Rightarrow>
               if \<not> ok then Inr None
               else Inr (Some \<lparr>uid = db_id user_db, email = db_email user_db,
                                role = db_role user_db, groups = db_groups user_db\<rparr>)))"

subsection \<open>Tokens\<close>

text \<open>\<open>hmac.new(secret.encode(), msg.encode(), hashlib.sha256).hexdigest()\<close>.\<close>

definition hmac_hexdigest :: "pystr \<Rightarrow> pystr \<Rightarrow> pyerr + pystr" where
  "hmac_hexdigest secret msg =
     (case utf8_encode secret of
        Inl e \<Rightarrow> Inl e
      | Inr key \<Rightarrow>
          (case utf8_encode msg of
             Inl e \<Rightarrow> Inl e
           | Inr m \<Rightarrow> Inr (hexlify (hmac_sha256 key m))))"

definition jwt_payload :: "platform \<Rightarrow> datetime \<Rightarrow> DemoUser \<Rightarrow> pyval" where
  "jwt_payload P now user =
     PDict [(S ''sub'', PStr (email user)),
            (S ''userId'', PStr (uid user)),
            (S ''email'', PStr (email user)),
            (S ''role'', PStr (role user)),
            (S ''groups'', PList (map model_dump (groups user))),
            (S ''exp'', PFloat (timestamp P (now + timedelta_hours 24)))]"

text \<open>
  \<open>create_simple_jwt(user)\<close>, with the module's \<open>JWT_SECRET\<close>, the reading \<open>now\<close> of
  \<open>datetime.utcnow()\<close> and the \<open>repr\<close> of floats as arguments.
\<close>

definition create_simple_jwt ::
  "platform \<Rightarrow> (rat \<Rightarrow> pystr) \<Rightarrow> pystr \<Rightarrow> datetime \<Rightarrow> DemoUser \<Rightarrow> pyerr + pystr" where
  "create_simple_jwt P float_repr secret now user =
     (let payload_str = json_dumps float_repr (jwt_payload P now user) in
      case utf8_encode payload_str of
        Inl e \<Rightarrow> Inl e
      | Inr raw \<Rightarrow>
          (case utf8_decode (urlsafe_b64encode raw) of
             Inl e \<Rightarrow> Inl e
           | Inr payload_b64 \<Rightarrow>
               (case hmac_hexdigest secret payload_b64 of
                  Inl e \<Rightarrow> Inl e
                | Inr signature \<Rightarrow> Inr (payload_b64 @ [46] @ signature))))"

text \<open>The arguments of \<open>DemoUser(...)\<close> are evaluated from left to right, then validated.\<close>

definition make_user :: "pyval \<Rightarrow> pyerr + DemoUser" where
  "make_user payload =
     (case getitem payload (S ''userId'') of
        Inl e \<Rightarrow> Inl e
      | Inr i \<Rightarrow>
          (case getitem payload (S ''email'') of
             Inl e \<Rightarrow> Inl e
           | Inr m \<Rightarrow>
               (case getitem payload (S ''role'') of
                  Inl e \<Rightarrow> Inl e
                | Inr r \<Rightarrow>
                    (case getitem payload (S ''groups'') of
                       Inl e \<Rightarrow> Inl e
                     | Inr g \<Rightarrow>
                         (case py_iter g of
                            Inl e \<Rightarrow> Inl e
                          | Inr items \<Rightarrow>
                              (case make_groups items of
                                 Inl e \<Rightarrow> Inl e
                               | Inr gs \<Rightarrow>
                                   (case validate_str i of
                                      Inl e \<Rightarrow> Inl e
                                    | Inr i' \<Rightarrow>
                                        (case validate_str m of
                                           Inl e \<Rightarrow> Inl e
                                         | Inr m' \<Rightarrow>
                                             (case validate_str r of
                                                Inl e \<Rightarrow> Inl e
                                              | Inr r' \<Rightarrow>
                                                  Inr \<lparr>uid = i', email = m', role = r',
                                                       groups = gs\<rparr>)))))))))"

text \<open>
  The body of the \<open>try\<close> block of \<open>verify_simple_jwt\<close>; \<open>now\<close> is the reading of
  \<open>datetime.utcnow()\<close>.
\<close>

definition verify_body ::
  "platform \<Rightarrow> pystr \<Rightarrow> datetime \<Rightarrow> pystr \<Rightarrow> pyerr + DemoUser option" where
  "verify_body P secret now token =
     (let parts = split_on 46 token in
      if length parts \<noteq> 2 then Inr None
      else
        (let payload_b64 = parts ! 0; signature = parts ! 1 in
         case hmac_hexdigest secret payload_b64 of
           Inl e \<Rightarrow> Inl e
         | Inr expected_signature \<Rightarrow>
             if signature \<noteq> expected_signature then Inr None
             else
               (case urlsafe_b64decode payload_b64 of
                  Inl e \<Rightarrow> Inl e
                | Inr raw \<Rightarrow>
                    (case utf8_decode raw of
                       Inl e \<Rightarrow> Inl e
                     | Inr payload_str \<Rightarrow>
                         (case json_loads P payload_str of
                            Inl e \<Rightarrow> Inl e
                          | Inr payload \<Rightarrow>
                              (case dict_get payload (S ''exp'') (PInt 0) of
                                 Inl e \<Rightarrow> Inl e
                               | Inr ex \<Rightarrow>
                                   (case py_lt_float ex (timestamp P now) of
                                      Inl e \<Rightarrow> Inl e
                                    | Inr expired \<Rightarrow>
                                        if expired then Inr None
                                        else
                                          (case make_user payload of
                                             Inl e \<Rightarrow> Inl e
                                           | Inr user \<Rightarrow> Inr (Some user)))))))))"

text \<open>
  \<open>verify_simple_jwt(token)\<close>: the bare \<open>except\<close> turns every exception of the body
  into the result \<open>None\<close>.
\<close>

definition verify_simple_jwt ::
  "platform \<Rightarrow> pystr \<Rightarrow> datetime \<Rightarrow> pystr \<Rightarrow> pyerr + DemoUser option" where
  "verify_simple_jwt P secret now token =
     (case verify_body P secret now token of
        Inl e \<Rightarrow> Inr None
      | Inr res \<Rightarrow> Inr res)"

section \<open>Properties\<close>

subsection \<open>Splitting and hex digits\<close>

lemma length_split_on: "length (split_on sep s) = Suc (count_list s sep)"
  by (induction s) (auto split: list.splits)

lemma split_on_no_sep: "sep \<notin> set s \<Longrightarrow> split_on sep s = [s]"
  by (induction s) auto

lemma split_on_two:
  "sep \<notin> set p \<Longrightarrow> sep \<notin> set sg \<Longrightarrow> split_on sep (p @ sep # sg) = [p, sg]"
  by (induction p) (auto simp: split_on_no_sep)

lemma char_of_eq_nat: "(char_of (n::nat) = c) = (of_char c = n mod 256)"
  by (metis of_char_of char_of_char)

lemma hexdigit_code: "n < 16 \<Longrightarrow> of_char (hexdigit n) \<in> {48..57} \<union> {97..102::nat}"
proof -
  have "list_all (\<lambda>n. (of_char (hexdigit n) :: nat) \<in> {48..57} \<union> {97..102}) [0..<16]"
    by code_simp
  then show "n < 16 \<Longrightarrow> of_char (hexdigit n) \<in> {48..57} \<union> {97..102::nat}"
    by (simp add: list_all_iff)
qed

lemma hexdigit_not_dot: "n < 16 \<Longrightarrow> of_char (hexdigit n) \<noteq> (46::nat)"
  using hexdigit_code [of n] by auto

lemma of_char_div16: "(of_char c :: nat) div 16 < 16"
proof -
  have "(of_char c :: nat) < 16 * 16" by simp
  then show ?thesis by (rule less_mult_imp_div_less)
qed

lemma hexlify_no_dot: "46 \<notin> set (hexlify bs)"
  by (induction bs) (auto simp: hexlify_def hexdigit_not_dot of_char_div16)

subsection \<open>Doubles that are small whole numbers\<close>

lemma round_double_0: "round_double 0 = 0"
  by (simp add: round_double_def)

lemma round_double_1: "round_double 1 = 1"
  by code_simp

lemma round_double_5: "round_double 5 = 5"
  by code_simp

lemma round_double_6: "round_double 6 = 6"
  by code_simp

lemma utc_timestamp_1s: "timestamp utc_platform 1000000 = 1"
  by (simp add: utc_platform_def utc_timestamp_def round_double_0 round_double_1)

lemma utc_timestamp_5s: "timestamp utc_platform 5000000 = 5"
  by (simp add: utc_platform_def utc_timestamp_def round_double_0 round_double_5)

lemma utc_timestamp_6s: "timestamp utc_platform 6000000 = 6"
  by (simp add: utc_platform_def utc_timestamp_def round_double_0 round_double_6)

subsection \<open>Reconstruction of the identity\<close>

lemma make_group_obj:
  fixes g :: Group
  shows "group_obj v g \<Longrightarrow> make_group v = Inr g"
  by (cases v) (simp_all add: group_obj_def make_group_def field_str_def validate_str_def)

lemma make_groups_objs: "list_all2 group_obj items gs \<Longrightarrow> make_groups items = Inr gs"
  by (induction items gs rule: list_all2_induct) (simp_all add: make_group_obj)

lemma make_user_fields:
  assumes "map_of claims (S ''userId'') = Some (PStr i)"
    and "map_of claims (S ''email'') = Some (PStr m)"
    and "map_of claims (S ''role'') = Some (PStr r)"
    and "map_of claims (S ''groups'') = Some (PList items)"
    and "list_all2 group_obj items gs"
  shows "make_user (PDict claims) = Inr \<lparr>uid = i, email = m, role = r, groups = gs\<rparr>"
  using assms
  by (simp add: make_user_def getitem_def py_iter_def make_groups_objs validate_str_def)

lemma py_lt_float_number: "number_value ex = Some v \<Longrightarrow> py_lt_float ex x = Inr (v < x)"
  by (cases ex) (auto simp: number_value_def py_lt_float_def)

subsection \<open>The steps of verification\<close>

lemma verify_accepts:
  assumes "split_on 46 token = [payload_b64, signature]"
    and "hmac_hexdigest secret payload_b64 = Inr signature"
    and "urlsafe_b64decode payload_b64 = Inr raw"
    and "utf8_decode raw = Inr payload_str"
    and "json_loads P payload_str = Inr (PDict claims)"
    and "map_of claims (S ''exp'') = Some ex"
    and "py_lt_float ex (timestamp P now) = Inr False"
    and "make_user (PDict claims) = Inr user"
  shows "verify_simple_jwt P secret now token = Inr (Some user)"
  using assms
  by (simp add: verify_simple_jwt_def verify_body_def dict_get_def)

lemma verify_rejects_user:
  assumes "split_on 46 token = [payload_b64, signature]"
    and "hmac_hexdigest secret payload_b64 = Inr signature"
    and "urlsafe_b64decode payload_b64 = Inr raw"
    and "utf8_decode raw = Inr payload_str"
    and "json_loads P payload_str = Inr (PDict claims)"
    and "make_user (PDict claims) = Inl err"
  shows "verify_simple_jwt P secret now token = Inr None"
  using assms
  by (simp add: verify_simple_jwt_def verify_body_def dict_get_def split: sum.splits)

subsection \<open>Concrete tokens\<close>

text \<open>
  Four claims segments, each the base64 text of a JSON object, signed with the secret
  \<open>k\<close>: the empty object; a claim set without \<open>sub\<close> whose \<open>exp\<close> is 5.0; the same with
  the number 1 as \<open>userId\<close>; and the same with one group whose keys are in another order.
\<close>

lemma utf8_encode_k: "utf8_encode (S ''k'') = Inr ''k''"
  by (simp add: S_def is_surrogate_def char_of_eq_nat)

lemma empty_b64_encode: "utf8_encode (S ''e30='') = Inr ''e30=''"
  by (simp add: S_def is_surrogate_def char_of_eq_nat)

lemma empty_sign:
  "hmac_hexdigest (S ''k'') (S ''e30='') = Inr (hexlify (hmac_sha256 ''k'' ''e30=''))"
  by (simp add: hmac_hexdigest_def utf8_encode_k empty_b64_encode)

lemma empty_b64_decode: "urlsafe_b64decode (S ''e30='') = Inr ''{}''"
  by (simp add: S_def urlsafe_b64decode_def ascii_encode_def b64val_def char_of_eq_nat)

lemma empty_utf8: "utf8_decode ''{}'' = Inr (S ''{}'')"
  by (simp add: S_def utf8_decode_def cons_ok_def)

lemma empty_loads: "json_loads utc_platform (S ''{}'') = Inr (PDict [])"
  by (simp add: S_def json_loads_def skip_ws_def starts_with_def utc_platform_def)

lemma empty_split:
  "split_on 46 (S ''e30='' @ 46 # hexlify (hmac_sha256 ''k'' ''e30=''))
   = [S ''e30='', hexlify (hmac_sha256 ''k'' ''e30='')]"
  by (rule split_on_two) (simp_all add: S_def hexlify_no_dot)

lemma five_b64_encode: "utf8_encode (S ''eyJ1c2VySWQiOiAidSIsICJlbWFpbCI6ICJlIiwgInJvbGUiOiAiciIsICJncm91cHMiOiBbXSwgImV4cCI6IDUuMH0='') = Inr ''eyJ1c2VySWQiOiAidSIsICJlbWFpbCI6ICJlIiwgInJvbGUiOiAiciIsICJncm91cHMiOiBbXSwgImV4cCI6IDUuMH0=''"
  by (simp add: S_def is_surrogate_def char_of_eq_nat)

lemma five_sign:
  "hmac_hexdigest (S ''k'') (S ''eyJ1c2VySWQiOiAidSIsICJlbWFpbCI6ICJlIiwgInJvbGUiOiAiciIsICJncm91cHMiOiBbXSwgImV4cCI6IDUuMH0='') = Inr (hexlify (hmac_sha256 ''k'' ''eyJ1c2VySWQiOiAidSIsICJlbWFpbCI6ICJlIiwgInJvbGUiOiAiciIsICJncm91cHMiOiBbXSwgImV4cCI6IDUuMH0=''))"
  by (simp add: hmac_hexdigest_def utf8_encode_k five_b64_encode)

lemma five_b64_decode: "urlsafe_b64decode (S ''eyJ1c2VySWQiOiAidSIsICJlbWFpbCI6ICJlIiwgInJvbGUiOiAiciIsICJncm91cHMiOiBbXSwgImV4cCI6IDUuMH0='') = Inr ''{\"userId\": \"u\", \"email\": \"e\", \"role\": \"r\", \"groups\": [], \"exp\": 5.0}''"
  by (simp add: S_def urlsafe_b64decode_def ascii_encode_def b64val_def char_of_eq_nat)

lemma five_utf8: "utf8_decode ''{\"userId\": \"u\", \"email\": \"e\", \"role\": \"r\", \"groups\": [], \"exp\": 5.0}'' = Inr (S ''{\"userId\": \"u\", \"email\": \"e\", \"role\": \"r\", \"groups\": [], \"exp\": 5.0}'')"
  by (simp add: S_def utf8_decode_def cons_ok_def)

lemma five_loads:
  "json_loads utc_platform (S ''{\"userId\": \"u\", \"email\": \"e\", \"role\": \"r\", \"groups\": [], \"exp\": 5.0}'') =
     Inr (PDict [(S ''userId'', PStr (S ''u'')), (S ''email'', PStr (S ''e'')),
                 (S ''role'', PStr (S ''r'')), (S ''groups'', PList []), (S ''exp'', PFloat 5)])"
  by (simp add: S_def json_loads_def skip_ws_def starts_with_def hexval_def unescape_def
      cons_str_def match_number_def int_part_def frac_part_def exp_part_def exp_digits_def
      is_digit_def digits_val_def frac_val_def dict_of_def utc_platform_def to_double_def
      round_double_5)

lemma five_split:
  "split_on 46 (S ''eyJ1c2VySWQiOiAidSIsICJlbWFpbCI6ICJlIiwgInJvbGUiOiAiciIsICJncm91cHMiOiBbXSwgImV4cCI6IDUuMH0='' @ 46 # hexlify (hmac_sha256 ''k'' ''eyJ1c2VySWQiOiAidSIsICJlbWFpbCI6ICJlIiwgInJvbGUiOiAiciIsICJncm91cHMiOiBbXSwgImV4cCI6IDUuMH0=''))
   = [S ''eyJ1c2VySWQiOiAidSIsICJlbWFpbCI6ICJlIiwgInJvbGUiOiAiciIsICJncm91cHMiOiBbXSwgImV4cCI6IDUuMH0='', hexlify (hmac_sha256 ''k'' ''eyJ1c2VySWQiOiAidSIsICJlbWFpbCI6ICJlIiwgInJvbGUiOiAiciIsICJncm91cHMiOiBbXSwgImV4cCI6IDUuMH0='')]"
  by (rule split_on_two) (simp_all add: S_def hexlify_no_dot)

lemma five_user:
  "make_user (PDict [(S ''userId'', PStr (S ''u'')), (S ''email'', PStr (S ''e'')),
                     (S ''role'', PStr (S ''r'')), (S ''groups'', PList []), (S ''exp'', PFloat 5)])
   = Inr \<lparr>uid = S ''u'', email = S ''e'', role = S ''r'', groups = []\<rparr>"
  by (simp add: make_user_def getitem_def py_iter_def validate_str_def S_def)

lemma five_exp:
  "map_of [(S ''userId'', PStr (S ''u'')), (S ''email'', PStr (S ''e'')),
           (S ''role'', PStr (S ''r'')), (S ''groups'', PList []), (S ''exp'', PFloat 5)] (S ''exp'')
   = Some (PFloat 5)"
  by (simp add: S_def)

lemma five_exp_value:
  "number_value
     (case map_of [(S ''userId'', PStr (S ''u'')), (S ''email'', PStr (S ''e'')),
                   (S ''role'', PStr (S ''r'')), (S ''groups'', PList []), (S ''exp'', PFloat 5)]
             (S ''exp'') of
        None \<Rightarrow> PInt 0
      | Some ex \<Rightarrow> ex) = Some 5"
  by (simp add: S_def number_value_def)

lemma bad_b64_encode: "utf8_encode (S ''eyJ1c2VySWQiOiAxLCAiZW1haWwiOiAiZSIsICJyb2xlIjogInIiLCAiZ3JvdXBzIjogW10sICJleHAiOiA1LjB9'') = Inr ''eyJ1c2VySWQiOiAxLCAiZW1haWwiOiAiZSIsICJyb2xlIjogInIiLCAiZ3JvdXBzIjogW10sICJleHAiOiA1LjB9''"
  by (simp add: S_def is_surrogate_def char_of_eq_nat)

lemma bad_sign:
  "hmac_hexdigest (S ''k'') (S ''eyJ1c2VySWQiOiAxLCAiZW1haWwiOiAiZSIsICJyb2xlIjogInIiLCAiZ3JvdXBzIjogW10sICJleHAiOiA1LjB9'') = Inr (hexlify (hmac_sha256 ''k'' ''eyJ1c2VySWQiOiAxLCAiZW1haWwiOiAiZSIsICJyb2xlIjogInIiLCAiZ3JvdXBzIjogW10sICJleHAiOiA1LjB9''))"
  by (simp add: hmac_hexdigest_def utf8_encode_k bad_b64_encode)

lemma bad_b64_decode: "urlsafe_b64decode (S ''eyJ1c2VySWQiOiAxLCAiZW1haWwiOiAiZSIsICJyb2xlIjogInIiLCAiZ3JvdXBzIjogW10sICJleHAiOiA1LjB9'') = Inr ''{\"userId\": 1, \"email\": \"e\", \"role\": \"r\", \"groups\": [], \"exp\": 5.0}''"
  by (simp add: S_def urlsafe_b64decode_def ascii_encode_def b64val_def char_of_eq_nat)

lemma bad_utf8: "utf8_decode ''{\"userId\": 1, \"email\": \"e\", \"role\": \"r\", \"groups\": [], \"exp\": 5.0}'' = Inr (S ''{\"userId\": 1, \"email\": \"e\", \"role\": \"r\", \"groups\": [], \"exp\": 5.0}'')"
  by (simp add: S_def utf8_decode_def cons_ok_def)

lemma bad_loads:
  "json_loads utc_platform (S ''{\"userId\": 1, \"email\": \"e\", \"role\": \"r\", \"groups\": [], \"exp\": 5.0}'') =
     Inr (PDict [(S ''userId'', PInt 1), (S ''email'', PStr (S ''e'')),
                 (S ''role'', PStr (S ''r'')), (S ''groups'', PList []), (S ''exp'', PFloat 5)])"
  by (simp add: S_def json_loads_def skip_ws_def starts_with_def hexval_def unescape_def
      cons_str_def match_number_def int_part_def frac_part_def exp_part_def exp_digits_def
      is_digit_def digits_val_def frac_val_def dict_of_def utc_platform_def to_double_def
      round_double_5)

lemma bad_split:
  "split_on 46 (S ''eyJ1c2VySWQiOiAxLCAiZW1haWwiOiAiZSIsICJyb2xlIjogInIiLCAiZ3JvdXBzIjogW10sICJleHAiOiA1LjB9'' @ 46 # hexlify (hmac_sha256 ''k'' ''eyJ1c2VySWQiOiAxLCAiZW1haWwiOiAiZSIsICJyb2xlIjogInIiLCAiZ3JvdXBzIjogW10sICJleHAiOiA1LjB9''))
   = [S ''eyJ1c2VySWQiOiAxLCAiZW1haWwiOiAiZSIsICJyb2xlIjogInIiLCAiZ3JvdXBzIjogW10sICJleHAiOiA1LjB9'', hexlify (hmac_sha256 ''k'' ''eyJ1c2VySWQiOiAxLCAiZW1haWwiOiAiZSIsICJyb2xlIjogInIiLCAiZ3JvdXBzIjogW10sICJleHAiOiA1LjB9'')]"
  by (rule split_on_two) (simp_all add: S_def hexlify_no_dot)

lemma bad_user:
  "make_user (PDict [(S ''userId'', PInt 1), (S ''email'', PStr (S ''e'')),
                     (S ''role'', PStr (S ''r'')), (S ''groups'', PList []), (S ''exp'', PFloat 5)])
   = Inl ValidationError"
  by (simp add: make_user_def getitem_def py_iter_def validate_str_def S_def)

lemma grp_b64_encode: "utf8_encode (S ''eyJ1c2VySWQiOiAidSIsICJlbWFpbCI6ICJlIiwgInJvbGUiOiAiciIsICJncm91cHMiOiBbeyJuYW1lIjogIm4iLCAiaWQiOiAiaSIsICJ0eXBlIjogInQifV0sICJleHAiOiA1LjB9'') = Inr ''eyJ1c2VySWQiOiAidSIsICJlbWFpbCI6ICJlIiwgInJvbGUiOiAiciIsICJncm91cHMiOiBbeyJuYW1lIjogIm4iLCAiaWQiOiAiaSIsICJ0eXBlIjogInQifV0sICJleHAiOiA1LjB9''"
  by (simp add: S_def is_surrogate_def char_of_eq_nat)

lemma grp_sign:
  "hmac_hexdigest (S ''k'') (S ''eyJ1c2VySWQiOiAidSIsICJlbWFpbCI6ICJlIiwgInJvbGUiOiAiciIsICJncm91cHMiOiBbeyJuYW1lIjogIm4iLCAiaWQiOiAiaSIsICJ0eXBlIjogInQifV0sICJleHAiOiA1LjB9'') = Inr (hexlify (hmac_sha256 ''k'' ''eyJ1c2VySWQiOiAidSIsICJlbWFpbCI6ICJlIiwgInJvbGUiOiAiciIsICJncm91cHMiOiBbeyJuYW1lIjogIm4iLCAiaWQiOiAiaSIsICJ0eXBlIjogInQifV0sICJleHAiOiA1LjB9''))"
  by (simp add: hmac_hexdigest_def utf8_encode_k grp_b64_encode)

lemma grp_b64_decode: "urlsafe_b64decode (S ''eyJ1c2VySWQiOiAidSIsICJlbWFpbCI6ICJlIiwgInJvbGUiOiAiciIsICJncm91cHMiOiBbeyJuYW1lIjogIm4iLCAiaWQiOiAiaSIsICJ0eXBlIjogInQifV0sICJleHAiOiA1LjB9'') = Inr ''{\"userId\": \"u\", \"email\": \"e\", \"role\": \"r\", \"groups\": [{\"name\": \"n\", \"id\": \"i\", \"type\": \"t\"}], \"exp\": 5.0}''"
  by (simp add: S_def urlsafe_b64decode_def ascii_encode_def b64val_def char_of_eq_nat)

lemma grp_utf8: "utf8_decode ''{\"userId\": \"u\", \"email\": \"e\", \"role\": \"r\", \"groups\": [{\"name\": \"n\", \"id\": \"i\", \"type\": \"t\"}], \"exp\": 5.0}'' = Inr (S ''{\"userId\": \"u\", \"email\": \"e\", \"role\": \"r\", \"groups\": [{\"name\": \"n\", \"id\": \"i\", \"type\": \"t\"}], \"exp\": 5.0}'')"
  by (simp add: S_def utf8_decode_def cons_ok_def)

lemma grp_loads:
  "json_loads utc_platform (S ''{\"userId\": \"u\", \"email\": \"e\", \"role\": \"r\", \"groups\": [{\"name\": \"n\", \"id\": \"i\", \"type\": \"t\"}], \"exp\": 5.0}'') =
     Inr (PDict [(S ''userId'', PStr (S ''u'')), (S ''email'', PStr (S ''e'')),
                 (S ''role'', PStr (S ''r'')),
                 (S ''groups'', PList [PDict [(S ''name'', PStr (S ''n'')), (S ''id'', PStr (S ''i'')),
                                             (S ''type'', PStr (S ''t''))]]),
                 (S ''exp'', PFloat 5)])"
  by (simp add: S_def json_loads_def skip_ws_def starts_with_def hexval_def unescape_def
      cons_str_def match_number_def int_part_def frac_part_def exp_part_def exp_digits_def
      is_digit_def digits_val_def frac_val_def dict_of_def utc_platform_def to_double_def
      round_double_5)

lemma grp_split:
  "split_on 46 (S ''eyJ1c2VySWQiOiAidSIsICJlbWFpbCI6ICJlIiwgInJvbGUiOiAiciIsICJncm91cHMiOiBbeyJuYW1lIjogIm4iLCAiaWQiOiAiaSIsICJ0eXBlIjogInQifV0sICJleHAiOiA1LjB9'' @ 46 # hexlify (hmac_sha256 ''k'' ''eyJ1c2VySWQiOiAidSIsICJlbWFpbCI6ICJlIiwgInJvbGUiOiAiciIsICJncm91cHMiOiBbeyJuYW1lIjogIm4iLCAiaWQiOiAiaSIsICJ0eXBlIjogInQifV0sICJleHAiOiA1LjB9''))
   = [S ''eyJ1c2VySWQiOiAidSIsICJlbWFpbCI6ICJlIiwgInJvbGUiOiAiciIsICJncm91cHMiOiBbeyJuYW1lIjogIm4iLCAiaWQiOiAiaSIsICJ0eXBlIjogInQifV0sICJleHAiOiA1LjB9'', hexlify (hmac_sha256 ''k'' ''eyJ1c2VySWQiOiAidSIsICJlbWFpbCI6ICJlIiwgInJvbGUiOiAiciIsICJncm91cHMiOiBbeyJuYW1lIjogIm4iLCAiaWQiOiAiaSIsICJ0eXBlIjogInQifV0sICJleHAiOiA1LjB9'')]"
  by (rule split_on_two) (simp_all add: S_def hexlify_no_dot)

section \<open>The claims\<close>

text \<open>
  C9. \<open>verify_simple_jwt\<close> returns for every input string, every secret, every clock
  reading and every platform: the result is a user or \<open>None\<close>, never an exception.
\<close>

theorem verify_never_raises:
  "\<exists>res. verify_simple_jwt P secret now token = Inr res"
  unfolding verify_simple_jwt_def by (cases "verify_body P secret now token") simp_all

text \<open>
  C7. A string that does not split into exactly two parts at \<open>.\<close>, that is one with
  no dot or with two or more, is rejected with the result \<open>None\<close> and no exception.
\<close>

theorem verify_segment_count:
  "count_list token 46 \<noteq> 1 \<Longrightarrow>
     length (split_on 46 token) \<noteq> 2 \<and> verify_simple_jwt P secret now token = Inr None"
  by (simp add: verify_simple_jwt_def verify_body_def length_split_on)

theorem verify_segment_count_witness:
  "count_list (S ''abc'') 46 \<noteq> 1 \<and> count_list (S ''a.b.c'') 46 \<noteq> 1
   \<and> verify_simple_jwt utc_platform (S ''k'') 0 (S ''abc'') = Inr None
   \<and> verify_simple_jwt utc_platform (S ''k'') 0 (S ''a.b.c'') = Inr None"
  using verify_segment_count [of "S ''abc''" utc_platform "S ''k''" 0]
    verify_segment_count [of "S ''a.b.c''" utc_platform "S ''k''" 0]
  by (simp add: S_def)

text \<open>
  C4. A correctly signed token whose claims segment decodes and parses to a claim set
  is rejected when the claim set has no \<open>exp\<close> and the clock is after the epoch (the
  missing expiry counts as 0), and when \<open>exp\<close> is a number strictly below the clock.
  The numbers are the parsed claim, a double or an int, and the double that the clock
  returns.
\<close>

theorem verify_expired:
  assumes "split_on 46 token = [payload_b64, signature]"
    and "hmac_hexdigest secret payload_b64 = Inr signature"
    and "urlsafe_b64decode payload_b64 = Inr raw"
    and "utf8_decode raw = Inr payload_str"
    and "json_loads P payload_str = Inr (PDict claims)"
    and "(map_of claims (S ''exp'') = None \<and> 0 < timestamp P now)
         \<or> (map_of claims (S ''exp'') = Some (PFloat e) \<and> e < timestamp P now)
         \<or> (map_of claims (S ''exp'') = Some (PInt i) \<and> of_int i < timestamp P now)"
  shows "verify_simple_jwt P secret now token = Inr None"
  using assms
  by (auto simp: verify_simple_jwt_def verify_body_def dict_get_def py_lt_float_def)

theorem verify_expired_witness:
  "0 < timestamp utc_platform 1000000
   \<and> verify_simple_jwt utc_platform (S ''k'') 1000000
         (S ''e30='' @ 46 # hexlify (hmac_sha256 ''k'' ''e30='')) = Inr None
   \<and> 5 < timestamp utc_platform 6000000
   \<and> verify_simple_jwt utc_platform (S ''k'') 6000000
         (S ''eyJ1c2VySWQiOiAidSIsICJlbWFpbCI6ICJlIiwgInJvbGUiOiAiciIsICJncm91cHMiOiBbXSwgImV4cCI6IDUuMH0='' @ 46 # hexlify (hmac_sha256 ''k'' ''eyJ1c2VySWQiOiAidSIsICJlbWFpbCI6ICJlIiwgInJvbGUiOiAiciIsICJncm91cHMiOiBbXSwgImV4cCI6IDUuMH0='')) = Inr None"
  using verify_expired [where now = 1000000 and e = 0 and i = 0,
      OF empty_split empty_sign empty_b64_decode empty_utf8 empty_loads]
    verify_expired [where now = 6000000 and e = 5 and i = 0,
      OF five_split five_sign five_b64_decode five_utf8 five_loads]
  by (simp add: utc_timestamp_1s utc_timestamp_6s S_def)

text \<open>
  C3 states that a token whose \<open>exp\<close> equals the current time is rejected. The code
  compares with \<open><\<close>: the token below carries \<open>exp\<close> 5.0 and is accepted when the
  clock returns exactly 5.0.
\<close>

theorem expiry_equal_now_counterexample:
  "timestamp utc_platform 5000000 = 5
   \<and> verify_simple_jwt utc_platform (S ''k'') 5000000
         (S ''eyJ1c2VySWQiOiAidSIsICJlbWFpbCI6ICJlIiwgInJvbGUiOiAiciIsICJncm91cHMiOiBbXSwgImV4cCI6IDUuMH0='' @ 46 # hexlify (hmac_sha256 ''k'' ''eyJ1c2VySWQiOiAidSIsICJlbWFpbCI6ICJlIiwgInJvbGUiOiAiciIsICJncm91cHMiOiBbXSwgImV4cCI6IDUuMH0=''))
       = Inr (Some \<lparr>uid = S ''u'', email = S ''e'', role = S ''r'', groups = []\<rparr>)"
  using verify_accepts [where now = 5000000,
      OF five_split five_sign five_b64_decode five_utf8 five_loads five_exp _ five_user]
  by (simp add: py_lt_float_def utc_timestamp_5s)

text \<open>
  C3, as the code has it. Take a correctly signed, parseable token whose \<open>exp\<close> is a
  finite number (an int, a bool, a float), or is missing and so counts as 0. The token
  is expired exactly when that number is strictly below the current time. When the
  two are equal it is not expired, and the result is the identity that the claims
  give (\<open>None\<close> when they give none).
\<close>

theorem verify_expiry_strict:
  assumes "split_on 46 token = [payload_b64, signature]"
    and "hmac_hexdigest secret payload_b64 = Inr signature"
    and "urlsafe_b64decode payload_b64 = Inr raw"
    and "utf8_decode raw = Inr payload_str"
    and "json_loads P payload_str = Inr (PDict claims)"
    and "number_value (case map_of claims (S ''exp'') of None \<Rightarrow> PInt 0 | Some ex \<Rightarrow> ex) = Some v"
  shows "verify_simple_jwt P secret now token =
           (if v < timestamp P now then Inr None
            else (case make_user (PDict claims) of
                    Inl err \<Rightarrow> Inr None
                  | Inr user \<Rightarrow> Inr (Some user)))"
  using assms
  by (simp add: verify_simple_jwt_def verify_body_def dict_get_def py_lt_float_number
      split: sum.splits)

theorem verify_expiry_strict_witness:
  "timestamp utc_platform 5000000 = 5
   \<and> verify_simple_jwt utc_platform (S ''k'') 5000000
         (S ''eyJ1c2VySWQiOiAidSIsICJlbWFpbCI6ICJlIiwgInJvbGUiOiAiciIsICJncm91cHMiOiBbXSwgImV4cCI6IDUuMH0='' @ 46 # hexlify (hmac_sha256 ''k'' ''eyJ1c2VySWQiOiAidSIsICJlbWFpbCI6ICJlIiwgInJvbGUiOiAiciIsICJncm91cHMiOiBbXSwgImV4cCI6IDUuMH0=''))
       = (if (5 :: rat) < 5 then Inr None
          else Inr (Some \<lparr>uid = S ''u'', email = S ''e'', role = S ''r'', groups = []\<rparr>))"
  using verify_expiry_strict [where now = 5000000,
      OF five_split five_sign five_b64_decode five_utf8 five_loads five_exp_value]
  by (simp add: five_user utc_timestamp_5s)

text \<open>
  C10 states that every correctly signed, unexpired token whose claims hold \<open>userId\<close>,
  \<open>email\<close>, \<open>role\<close> and \<open>groups\<close> is accepted. The token below holds the four, with the
  number 1 as \<open>userId\<close>, and is not expired at a clock of 1.0; it is rejected, because
  the \<open>id\<close> of a \<open>DemoUser\<close> must be a \<open>str\<close>.
\<close>

theorem fields_present_counterexample:
  "json_loads utc_platform (S ''{\"userId\": 1, \"email\": \"e\", \"role\": \"r\", \"groups\": [], \"exp\": 5.0}'') =
     Inr (PDict [(S ''userId'', PInt 1), (S ''email'', PStr (S ''e'')),
                 (S ''role'', PStr (S ''r'')), (S ''groups'', PList []), (S ''exp'', PFloat 5)])
   \<and> timestamp utc_platform 1000000 = 1
   \<and> verify_simple_jwt utc_platform (S ''k'') 1000000
         (S ''eyJ1c2VySWQiOiAxLCAiZW1haWwiOiAiZSIsICJyb2xlIjogInIiLCAiZ3JvdXBzIjogW10sICJleHAiOiA1LjB9'' @ 46 # hexlify (hmac_sha256 ''k'' ''eyJ1c2VySWQiOiAxLCAiZW1haWwiOiAiZSIsICJyb2xlIjogInIiLCAiZ3JvdXBzIjogW10sICJleHAiOiA1LjB9'')) = Inr None"
  using verify_rejects_user [where now = 1000000,
      OF bad_split bad_sign bad_b64_decode bad_utf8 bad_loads bad_user]
  by (simp add: bad_loads utc_timestamp_1s)

text \<open>
  C10, as the code has it. The \<open>sub\<close> claim plays no part in verification. A correctly
  signed token is accepted, and gives the identity made of the four fields, when its
  claim set passes the expiry check and holds \<open>userId\<close>, \<open>email\<close> and \<open>role\<close> as strings
  and \<open>groups\<close> as a list of objects that each hold \<open>type\<close>, \<open>id\<close> and \<open>name\<close> as
  strings; whether \<open>sub\<close> is there, and what it is, does not matter.
\<close>

theorem verify_without_sub:
  assumes "split_on 46 token = [payload_b64, signature]"
    and "hmac_hexdigest secret payload_b64 = Inr signature"
    and "urlsafe_b64decode payload_b64 = Inr raw"
    and "utf8_decode raw = Inr payload_str"
    and "json_loads P payload_str = Inr (PDict claims)"
    and "map_of claims (S ''exp'') = Some ex"
    and "py_lt_float ex (timestamp P now) = Inr False"
    and "map_of claims (S ''userId'') = Some (PStr i)"
    and "map_of claims (S ''email'') = Some (PStr m)"
    and "map_of claims (S ''role'') = Some (PStr r)"
    and "map_of claims (S ''groups'') = Some (PList items)"
    and "list_all2 group_obj items gs"
  shows "verify_simple_jwt P secret now token
         = Inr (Some \<lparr>uid = i, email = m, role = r, groups = gs\<rparr>)"
  using assms
  by (simp add: verify_simple_jwt_def verify_body_def dict_get_def make_user_fields)

theorem verify_without_sub_witness:
  "verify_simple_jwt utc_platform (S ''k'') 1000000
         (S ''eyJ1c2VySWQiOiAidSIsICJlbWFpbCI6ICJlIiwgInJvbGUiOiAiciIsICJncm91cHMiOiBbeyJuYW1lIjogIm4iLCAiaWQiOiAiaSIsICJ0eXBlIjogInQifV0sICJleHAiOiA1LjB9'' @ 46 # hexlify (hmac_sha256 ''k'' ''eyJ1c2VySWQiOiAidSIsICJlbWFpbCI6ICJlIiwgInJvbGUiOiAiciIsICJncm91cHMiOiBbeyJuYW1lIjogIm4iLCAiaWQiOiAiaSIsICJ0eXBlIjogInQifV0sICJleHAiOiA1LjB9''))
       = Inr (Some \<lparr>uid = S ''u'', email = S ''e'', role = S ''r'',
                     groups = [\<lparr>gtype = S ''t'', gid = S ''i'', gname = S ''n''\<rparr>]\<rparr>)"
  using verify_without_sub [where now = 1000000 and ex = "PFloat 5" and i = "S ''u''"
      and m = "S ''e''" and r = "S ''r''"
      and items = "[PDict [(S ''name'', PStr (S ''n'')), (S ''id'', PStr (S ''i'')),
                          (S ''type'', PStr (S ''t''))]]"
      and gs = "[\<lparr>gtype = S ''t'', gid = S ''i'', gname = S ''n''\<rparr>]",
      OF grp_split grp_sign grp_b64_decode grp_utf8 grp_loads]
  by (simp add: py_lt_float_def utc_timestamp_1s group_obj_def S_def)

end
